theory Spec2Isabelle
  imports Complex_Main "HOL-Library.Sublist"
begin

section \<open>Exceptions\<close>

text \<open>
  The exceptions that travel through \<^verbatim>\<open>ai_service.py\<close> and \<^verbatim>\<open>openai_provider.py\<close>,
  by class, with the attribute the code reads. \<open>RateLimitError\<close> and \<open>APIStatusError\<close>
  carry \<^verbatim>\<open>status_code\<close>; the client library raises \<open>RateLimitError\<close> for a 429 response.
  \<open>APIStatusError c\<close> stands for an instance of any other subclass of
  \<^verbatim>\<open>openai.APIStatusError\<close> (\<^verbatim>\<open>NotFoundError\<close>, \<^verbatim>\<open>InternalServerError\<close>, ...).
  The string of \<open>ValueError\<close>, \<open>TypeError\<close> and \<open>IndexError\<close> is the message. An
  exception is its class and its arguments; the traceback and the implicit
  \<^verbatim>\<open>__context__\<close> link to an exception being handled are left out.
\<close>

datatype exn =
    RateLimitError int
  | APITimeoutError
  | APIConnectionError
  | APIStatusError int
  | ValueError string
  | TypeError string
  | IndexError string

section \<open>The retry decorator (\<^verbatim>\<open>ai_service.with_retry\<close>)\<close>

definition MAX_RETRIES :: int where
  "MAX_RETRIES = 3"

definition INITIAL_BACKOFF :: real where
  "INITIAL_BACKOFF = 1"

definition BACKOFF_MULTIPLIER :: real where
  "BACKOFF_MULTIPLIER = 2"

text \<open>
  One run of a wrapped function: the state \<open>world\<close> that the wrapped function reads and
  writes (the remote provider, for the functions of this module), the number of times
  \<^verbatim>\<open>func\<close> has been awaited, and the arguments of \<^verbatim>\<open>asyncio.sleep\<close> in the order of
  the calls. The wrapped function sees \<open>world\<close> only. Durations are seconds; the source
  computes them in floating point, where \<open>1.0 * 2.0 ** attempt\<close> is exact for every
  \<open>attempt\<close> below 1024 (a later one is out of reach: the waits before it add up to
  more than \<open>2 ^ 1023\<close> seconds).
\<close>

record 's run =
  world :: 's
  attempts :: nat
  sleeps :: "real list"

definition asyncio_sleep :: "real \<Rightarrow> 's run \<Rightarrow> 's run" where
  "asyncio_sleep wait_time r = r\<lparr>sleeps := sleeps r @ [wait_time]\<rparr>"

text \<open>
  The \<^verbatim>\<open>except\<close> clauses of the wrapper, in the order of the source. The first three
  and the non-4xx branch of the fourth record the exception, sleep and fall through to
  the next iteration (\<open>Retry\<close>); the 4xx branch re-raises; an exception of any other
  class is not caught at all (\<open>Propagate\<close> in both cases).
\<close>

datatype handling = Retry | Propagate

fun except_clauses :: "exn \<Rightarrow> handling" where
  "except_clauses (RateLimitError c) = Retry"
| "except_clauses APITimeoutError = Retry"
| "except_clauses APIConnectionError = Retry"
| "except_clauses (APIStatusError c) = (if 400 \<le> c \<and> c < 500 then Propagate else Retry)"
| "except_clauses e = Propagate"

text \<open>
  The body of \<^verbatim>\<open>wrapper\<close>: \<^verbatim>\<open>for attempt in range(max_retries)\<close> with the locals
  \<^verbatim>\<open>backoff\<close> and \<^verbatim>\<open>last_exception\<close>. After the loop, \<^verbatim>\<open>raise last_exception\<close>; with
  no iteration at all \<^verbatim>\<open>last_exception\<close> is \<^verbatim>\<open>None\<close> and Python raises \<open>TypeError\<close>.
\<close>

function with_retry_loop ::
  "int \<Rightarrow> ('s \<Rightarrow> (exn + 'a) \<times> 's) \<Rightarrow> real \<Rightarrow> nat \<Rightarrow> exn option \<Rightarrow> 's run
    \<Rightarrow> (exn + 'a) \<times> 's run" where
  "with_retry_loop max_retries func backoff attempt last_exception r =
     (if int attempt < max_retries then
        (case func (world r) of
           (Inr result, s) \<Rightarrow> (Inr result, r\<lparr>world := s, attempts := Suc (attempts r)\<rparr>)
         | (Inl e, s) \<Rightarrow>
             (case except_clauses e of
                Propagate \<Rightarrow> (Inl e, r\<lparr>world := s, attempts := Suc (attempts r)\<rparr>)
              | Retry \<Rightarrow>
                  (let wait_time = backoff * BACKOFF_MULTIPLIER ^ attempt
                   in with_retry_loop max_retries func backoff (Suc attempt) (Some e)
                        (asyncio_sleep wait_time
                           (r\<lparr>world := s, attempts := Suc (attempts r)\<rparr>)))))
      else (case last_exception of
              Some e \<Rightarrow> (Inl e, r)
            | None \<Rightarrow> (Inl (TypeError ''exceptions must derive from BaseException''), r)))"
  by pat_completeness auto
termination
  by (relation "measure (\<lambda>(max_retries, func, backoff, attempt, last_exception, r).
        nat (max_retries - int attempt))") auto

declare with_retry_loop.simps [simp del]

definition with_retry ::
  "int \<Rightarrow> ('s \<Rightarrow> (exn + 'a) \<times> 's) \<Rightarrow> 's run \<Rightarrow> (exn + 'a) \<times> 's run" where
  "with_retry max_retries func r =
     with_retry_loop max_retries func INITIAL_BACKOFF 0 None r"

text \<open>A fresh run over a state of the wrapped function.\<close>

definition start :: "'s \<Rightarrow> 's run" where
  "start s = \<lparr>world = s, attempts = 0, sleeps = []\<rparr>"

subsection \<open>Stub operations\<close>

text \<open>
  Test doubles for a wrapped function. Their state is the number of calls they have
  received. \<open>always_fails e\<close> raises \<open>e\<close> at every call; \<open>succeeds_at k e v\<close> raises
  \<open>e\<close> at the calls before the \<open>k\<close>-th and returns \<open>v\<close> from the \<open>k\<close>-th on.
\<close>

definition always_fails :: "exn \<Rightarrow> nat \<Rightarrow> (exn + string) \<times> nat" where
  "always_fails e n = (Inl e, Suc n)"

definition succeeds_at :: "nat \<Rightarrow> exn \<Rightarrow> string \<Rightarrow> nat \<Rightarrow> (exn + string) \<times> nat" where
  "succeeds_at k e v n = (if Suc n < k then Inl e else Inr v, Suc n)"

text \<open>
  What a wrapped function does when it is awaited again and again from a state \<open>s\<close>:
  \<open>after func n s\<close> is the state after \<open>n\<close> calls, \<open>outcome func n s\<close> what call
  number \<open>n + 1\<close> returns or raises. \<open>transient\<close> holds of an outcome that the wrapper
  answers with a sleep and another iteration.
\<close>

fun after :: "('s \<Rightarrow> (exn + 'a) \<times> 's) \<Rightarrow> nat \<Rightarrow> 's \<Rightarrow> 's" where
  "after func 0 s = s"
| "after func (Suc n) s = after func n (snd (func s))"

definition outcome :: "('s \<Rightarrow> (exn + 'a) \<times> 's) \<Rightarrow> nat \<Rightarrow> 's \<Rightarrow> exn + 'a" where
  "outcome func n s = fst (func (after func n s))"

fun transient :: "exn + 'a \<Rightarrow> bool" where
  "transient (Inl e) = (except_clauses e = Retry)"
| "transient (Inr v) = False"

text \<open>The waits \<open>backoff * BACKOFF_MULTIPLIER ** i\<close> for \<open>i = a, ..., a + n - 1\<close>.\<close>

definition backoff_terms :: "real \<Rightarrow> nat \<Rightarrow> nat \<Rightarrow> real list" where
  "backoff_terms backoff a n = map (\<lambda>i. backoff * BACKOFF_MULTIPLIER ^ i) [a..<a + n]"

section \<open>Configuration (\<^verbatim>\<open>openai_provider.py\<close>)\<close>



record AzureOpenAIConfig =
  endpoint :: string
  api_key :: string
  chat_api_version :: string
  embedding_api_version :: string
  deployment_chat :: string
  deployment_chat_mini :: string
  deployment_embedding :: string





definition get_chat_deployment :: "AzureOpenAIConfig \<Rightarrow> string" where
  "get_chat_deployment config = deployment_chat config"

definition get_chat_mini_deployment :: "AzureOpenAIConfig \<Rightarrow> string" where
  "get_chat_mini_deployment config = deployment_chat_mini config"

definition get_embedding_deployment :: "AzureOpenAIConfig \<Rightarrow> string" where
  "get_embedding_deployment config = deployment_embedding config"

section \<open>The remote provider\<close>

text \<open>
  The keyword arguments of \<^verbatim>\<open>chat.completions.create\<close> and \<^verbatim>\<open>embeddings.create\<close>, and
  the parts of their responses that the code reads: \<^verbatim>\<open>response.choices[i].message.content\<close>
  (which may be \<^verbatim>\<open>None\<close>) and \<^verbatim>\<open>response.data[i].embedding\<close>. A message is a
  dictionary with the keys \<^verbatim>\<open>role\<close> and \<^verbatim>\<open>content\<close>. The provider itself is not part
  of the repository: it is a parameter, a state machine over a state \<open>'s\<close> of its own
  that answers each call with a response or an exception.
\<close>

type_synonym message = "(string \<times> string) list"

record chat_kwargs =
  kw_model :: string
  kw_messages :: "message list"
  kw_temperature :: "real option"
  kw_max_tokens :: int
  kw_response_format :: "(string \<times> string) list option"

record choice =
  message_content :: "string option"

record chat_response =
  choices :: "choice list"

datatype embedding_input = Single string | Batch "string list"

record embedding_kwargs =
  emb_model :: string
  emb_input :: embedding_input

record embedding_item =
  embedding :: "real list"

record embedding_response =
  data :: "embedding_item list"

record 's provider =
  chat_completions_create :: "chat_kwargs \<Rightarrow> 's \<Rightarrow> (exn + chat_response) \<times> 's"
  embeddings_create :: "embedding_kwargs \<Rightarrow> 's \<Rightarrow> (exn + embedding_response) \<times> 's"

section \<open>AI operations (\<^verbatim>\<open>ai_service.py\<close>)\<close>

text \<open>
  Each decorated function is \<open>with_retry MAX_RETRIES\<close> applied to its body; the body
  is named \<open>_body\<close>. \<^verbatim>\<open>x[0]\<close> on an empty list raises \<open>IndexError\<close>.
\<close>

definition generate_embedding_body ::
  "'s provider \<Rightarrow> AzureOpenAIConfig \<Rightarrow> string \<Rightarrow> 's \<Rightarrow> (exn + real list) \<times> 's" where
  "generate_embedding_body client config text s =
     (case embeddings_create client
             \<lparr>emb_model = get_embedding_deployment config, emb_input = Single text\<rparr> s of
        (Inl e, s') \<Rightarrow> (Inl e, s')
      | (Inr response, s') \<Rightarrow>
          (case data response of
             [] \<Rightarrow> (Inl (IndexError ''list index out of range''), s')
           | item # _ \<Rightarrow> (Inr (embedding item), s')))"

definition generate_embedding ::
  "'s provider \<Rightarrow> AzureOpenAIConfig \<Rightarrow> string \<Rightarrow> 's run \<Rightarrow> (exn + real list) \<times> 's run" where
  "generate_embedding client config text =
     with_retry MAX_RETRIES (generate_embedding_body client config text)"



text \<open>
  \<^verbatim>\<open>model or get_chat_deployment()\<close> and \<^verbatim>\<open>if response_format:\<close> test truthiness:
  \<^verbatim>\<open>None\<close>, the empty string and the empty dictionary are false.
  \<^verbatim>\<open>content or ""\<close> turns \<^verbatim>\<open>None\<close> into the empty string.
\<close>

definition chat_kwargs_of ::
  "AzureOpenAIConfig \<Rightarrow> message list \<Rightarrow> string option \<Rightarrow> real \<Rightarrow> int
    \<Rightarrow> (string \<times> string) list option \<Rightarrow> chat_kwargs" where
  "chat_kwargs_of config messages model temperature max_tokens response_format =
     (let deployment =
            (case model of
               None \<Rightarrow> get_chat_deployment config
             | Some m \<Rightarrow> if m = [] then get_chat_deployment config else m);
          kwargs = \<lparr>kw_model = deployment, kw_messages = messages,
                    kw_temperature = Some temperature, kw_max_tokens = max_tokens,
                    kw_response_format = None\<rparr>
      in case response_format of
           None \<Rightarrow> kwargs
         | Some d \<Rightarrow> if d = [] then kwargs else kwargs\<lparr>kw_response_format := Some d\<rparr>)"

definition chat_completion_body ::
  "'s provider \<Rightarrow> AzureOpenAIConfig \<Rightarrow> message list \<Rightarrow> string option \<Rightarrow> real \<Rightarrow> int
    \<Rightarrow> (string \<times> string) list option \<Rightarrow> 's \<Rightarrow> (exn + string) \<times> 's" where
  "chat_completion_body client config messages model temperature max_tokens response_format s =
     (case chat_completions_create client
             (chat_kwargs_of config messages model temperature max_tokens response_format) s of
        (Inl e, s') \<Rightarrow> (Inl e, s')
      | (Inr response, s') \<Rightarrow>
          (case choices response of
             [] \<Rightarrow> (Inl (IndexError ''list index out of range''), s')
           | c # _ \<Rightarrow>
               (Inr (case message_content c of None \<Rightarrow> [] | Some text \<Rightarrow> text), s')))"

definition chat_completion ::
  "'s provider \<Rightarrow> AzureOpenAIConfig \<Rightarrow> message list \<Rightarrow> string option \<Rightarrow> real \<Rightarrow> int
    \<Rightarrow> (string \<times> string) list option \<Rightarrow> 's run \<Rightarrow> (exn + string) \<times> 's run" where
  "chat_completion client config messages model temperature max_tokens response_format =
     with_retry MAX_RETRIES
       (chat_completion_body client config messages model temperature max_tokens response_format)"

text \<open>
  JSON values, and \<^verbatim>\<open>json.loads\<close> as a parameter: it returns the parsed value, or
  raises \<^verbatim>\<open>JSONDecodeError\<close>, given here by its text \<^verbatim>\<open>str(e)\<close>, which Python builds
  from the error message and the position (\<^verbatim>\<open>"msg: line 1 column 2 (char 1)"\<close>).
  The body of \<^verbatim>\<open>chat_completion_json\<close> awaits the decorated \<^verbatim>\<open>chat_completion\<close>, so its
  state is a run of that function, and its own run is a run over runs.
\<close>

datatype json =
    JNull
  | JBool bool
  | JNumber real
  | JString string
  | JArray "json list"
  | JObject "(string \<times> json) list"

definition chat_completion_json_body ::
  "(string \<Rightarrow> string + json) \<Rightarrow> 's provider \<Rightarrow> AzureOpenAIConfig \<Rightarrow> message list
    \<Rightarrow> string option \<Rightarrow> real \<Rightarrow> int \<Rightarrow> 's run \<Rightarrow> (exn + json) \<times> 's run" where
  "chat_completion_json_body json_loads client config messages model temperature max_tokens r =
     (case chat_completion client config messages model temperature max_tokens
             (Some [(''type'', ''json_object'')]) r of
        (Inl e, r') \<Rightarrow> (Inl e, r')
      | (Inr text, r') \<Rightarrow>
          (case json_loads text of
             Inr v \<Rightarrow> (Inr v, r')
           | Inl e \<Rightarrow> (Inl (ValueError (''Invalid JSON response from model: '' @ e)), r')))"

definition chat_completion_json ::
  "(string \<Rightarrow> string + json) \<Rightarrow> 's provider \<Rightarrow> AzureOpenAIConfig \<Rightarrow> message list
    \<Rightarrow> string option \<Rightarrow> real \<Rightarrow> int \<Rightarrow> 's run run \<Rightarrow> (exn + json) \<times> 's run run" where
  "chat_completion_json json_loads client config messages model temperature max_tokens =
     with_retry MAX_RETRIES
       (chat_completion_json_body json_loads client config messages model temperature max_tokens)"

section \<open>The health probe (\<^verbatim>\<open>openai_provider.validate_azure_connection\<close>)\<close>

text \<open>
  The probe calls the provider directly, outside the retry decorator, and returns a
  dictionary; any exception is logged and raised again.
\<close>

definition validate_azure_connection ::
  "'s provider \<Rightarrow> AzureOpenAIConfig \<Rightarrow> 's \<Rightarrow> (exn + (string \<times> string) list) \<times> 's" where
  "validate_azure_connection client config s =
     (case chat_completions_create client
             \<lparr>kw_model = deployment_chat_mini config,
              kw_messages = [[(''role'', ''user''), (''content'', ''Hello'')]],
              kw_temperature = None, kw_max_tokens = 5, kw_response_format = None\<rparr> s of
        (Inl e, s1) \<Rightarrow> (Inl e, s1)
      | (Inr response, s1) \<Rightarrow>
          (case choices response of
             [] \<Rightarrow> (Inl (IndexError ''list index out of range''), s1)
           | c # _ \<Rightarrow>
               (let chat_ok = (message_content c \<noteq> None) in
                case embeddings_create client
                       \<lparr>emb_model = deployment_embedding config, emb_input = Single ''test''\<rparr>
                       s1 of
                  (Inl e, s2) \<Rightarrow> (Inl e, s2)
                | (Inr embed_response, s2) \<Rightarrow>
                    (case data embed_response of
                       [] \<Rightarrow> (Inl (IndexError ''list index out of range''), s2)
                     | item # _ \<Rightarrow>
                         (let embedding_ok = (length (embedding item) > 0) in
                          (Inr [(''status'',
                                  if chat_ok \<and> embedding_ok then ''healthy'' else ''degraded''),
                                (''chat_completion'', if chat_ok then ''ok'' else ''failed''),
                                (''embeddings'', if embedding_ok then ''ok'' else ''failed''),
                                (''endpoint'', endpoint config)], s2))))))"

section \<open>Stub providers\<close>

text \<open>
  Test doubles for the provider; their state counts the calls received.
  \<open>stub_provider reply vector_of\<close> answers a chat call with one choice whose content is
  \<open>reply kwargs\<close> and an embedding call with one vector \<open>vector_of text\<close> per input text, in
  the order of the input. \<open>failing_provider e\<close> raises \<open>e\<close> at every call.
\<close>

definition example_config :: AzureOpenAIConfig where
  "example_config =
     \<lparr>endpoint = ''https://example.openai.azure.com'', api_key = ''key'',
      chat_api_version = ''2024-12-01-preview'', embedding_api_version = ''2023-05-15'',
      deployment_chat = ''gpt-4.1'', deployment_chat_mini = ''gpt-4.1-mini'',
      deployment_embedding = ''text-embedding-ada-002''\<rparr>"

fun texts_of :: "embedding_input \<Rightarrow> string list" where
  "texts_of (Single text) = [text]"
| "texts_of (Batch texts) = texts"

definition stub_provider ::
  "(chat_kwargs \<Rightarrow> string option) \<Rightarrow> (string \<Rightarrow> real list) \<Rightarrow> nat provider" where
  "stub_provider reply vector_of =
     \<lparr>chat_completions_create =
        (\<lambda>kwargs n. (Inr \<lparr>choices = [\<lparr>message_content = reply kwargs\<rparr>]\<rparr>, Suc n)),
      embeddings_create =
        (\<lambda>kwargs n.
           (Inr \<lparr>data = map (\<lambda>t. \<lparr>embedding = vector_of t\<rparr>) (texts_of (emb_input kwargs))\<rparr>,
            Suc n))\<rparr>"

definition failing_provider :: "exn \<Rightarrow> nat provider" where
  "failing_provider e =
     \<lparr>chat_completions_create = (\<lambda>kwargs n. (Inl e, Suc n)),
      embeddings_create = (\<lambda>kwargs n. (Inl e, Suc n))\<rparr>"

text \<open>
  A stand-in for \<^verbatim>\<open>json.loads\<close> on the two texts of the examples, with the value and
  the error text that CPython gives for them.
\<close>

definition stub_json_loads :: "string \<Rightarrow> string + json" where
  \<open>stub_json_loads text =
     (if text = ''{"topics": ["x"]}'' then Inr (JObject [(''topics'', JArray [JString ''x''])])
      else if text = ''{bad json''
      then Inl ''Expecting property name enclosed in double quotes: line 1 column 2 (char 1)''
      else Inl ''Expecting value: line 1 column 1 (char 0)'')\<close>

section \<open>Properties of the retry decorator\<close>

lemma outcome_0: "outcome func 0 s = fst (func s)"
  by (simp add: outcome_def)

lemma outcome_Suc: "outcome func (Suc n) s = outcome func n (snd (func s))"
  by (simp add: outcome_def)

lemma after_add: "after func (m + n) s = after func n (after func m s)"
  by (induction m arbitrary: s) simp_all

lemma after_cong:
  assumes "\<And>s. snd (f s) = snd (g s)"
  shows "after f n s = after g n s"
  using assms by (induction n arbitrary: s) simp_all

lemma backoff_terms_Suc:
  "backoff_terms backoff a (Suc n) =
     (backoff * BACKOFF_MULTIPLIER ^ a) # backoff_terms backoff (Suc a) n"
  by (simp add: backoff_terms_def upt_conv_Cons del: upt_Suc)

lemma with_retry_loop_propagate:
  assumes "int attempt < max_retries"
    and "func (world r) = (Inl e, s)"
    and "except_clauses e = Propagate"
  shows "with_retry_loop max_retries func backoff attempt last_exception r =
           (Inl e, r\<lparr>world := s, attempts := Suc (attempts r)\<rparr>)"
  using assms by (subst with_retry_loop.simps) simp

lemma with_retry_loop_retry:
  assumes "int attempt < max_retries"
    and "func (world r) = (Inl e, s)"
    and "except_clauses e = Retry"
  shows "with_retry_loop max_retries func backoff attempt last_exception r =
           with_retry_loop max_retries func backoff (Suc attempt) (Some e)
             (r\<lparr>world := s, attempts := Suc (attempts r),
                sleeps := sleeps r @ [backoff * BACKOFF_MULTIPLIER ^ attempt]\<rparr>)"
  using assms
  by (subst with_retry_loop.simps) (simp add: asyncio_sleep_def)

lemma with_retry_loop_success:
  assumes "int attempt < max_retries"
    and "func (world r) = (Inr v, s)"
  shows "with_retry_loop max_retries func backoff attempt last_exception r =
           (Inr v, r\<lparr>world := s, attempts := Suc (attempts r)\<rparr>)"
  using assms by (subst with_retry_loop.simps) simp

lemma with_retry_loop_exhausted:
  assumes "\<not> int attempt < max_retries"
  shows "with_retry_loop max_retries func backoff attempt (Some e) r = (Inl e, r)"
  using assms by (subst with_retry_loop.simps) simp

lemma with_retry_loop_retries:
  assumes "\<forall>i<j. transient (outcome func i (world r))"
    and "int (attempt + j) \<le> max_retries"
    and "0 < j"
  shows "\<exists>e. outcome func (j - 1) (world r) = Inl e \<and> except_clauses e = Retry \<and>
           with_retry_loop max_retries func backoff attempt last_exception r =
           with_retry_loop max_retries func backoff (attempt + j) (Some e)
             (r\<lparr>world := after func j (world r), attempts := attempts r + j,
                sleeps := sleeps r @ backoff_terms backoff attempt j\<rparr>)"
  using assms
proof (induction j arbitrary: attempt last_exception r)
  case 0
  then show ?case by simp
next
  case (Suc j)
  from Suc.prems(1) have "transient (outcome func 0 (world r))" by blast
  then obtain e s where f: "func (world r) = (Inl e, s)" and e: "except_clauses e = Retry"
    by (cases "func (world r)"; cases "fst (func (world r))") (auto simp: outcome_0)
  let ?r1 = "r\<lparr>world := s, attempts := Suc (attempts r),
                sleeps := sleeps r @ [backoff * BACKOFF_MULTIPLIER ^ attempt]\<rparr>"
  have step: "with_retry_loop max_retries func backoff attempt last_exception r =
      with_retry_loop max_retries func backoff (Suc attempt) (Some e) ?r1"
    using Suc.prems(2) f e by (intro with_retry_loop_retry) simp_all
  show ?case
  proof (cases "j = 0")
    case True
    then show ?thesis using step f e by (simp add: outcome_0 backoff_terms_def)
  next
    case False
    have "\<forall>i<j. transient (outcome func i (world ?r1))"
      using Suc.prems(1) f by (auto simp: outcome_Suc dest: Suc_mono)
    moreover have "int (Suc attempt + j) \<le> max_retries" using Suc.prems(2) by simp
    ultimately obtain e' where
      o: "outcome func (j - 1) (world ?r1) = Inl e'" and e': "except_clauses e' = Retry" and
      l: "with_retry_loop max_retries func backoff (Suc attempt) (Some e) ?r1 =
          with_retry_loop max_retries func backoff (Suc attempt + j) (Some e')
            (?r1\<lparr>world := after func j (world ?r1), attempts := attempts ?r1 + j,
                sleeps := sleeps ?r1 @ backoff_terms backoff (Suc attempt) j\<rparr>)"
      using Suc.IH[of ?r1 "Suc attempt" "Some e"] False by blast
    have "outcome func (Suc j - 1) (world r) = Inl e'"
      using o f False by (cases j) (simp_all add: outcome_Suc)
    then show ?thesis
      using step l f e' by (simp add: backoff_terms_Suc)
  qed
qed

lemma with_retry_all_transient:
  assumes "\<forall>i<n. transient (outcome func i (world r))"
    and "0 < n"
  shows "\<exists>e. outcome func (n - 1) (world r) = Inl e \<and> except_clauses e = Retry \<and>
           with_retry (int n) func r =
             (Inl e, r\<lparr>world := after func n (world r), attempts := attempts r + n,
                sleeps := sleeps r @ backoff_terms INITIAL_BACKOFF 0 n\<rparr>)"
proof -
  obtain e where o: "outcome func (n - 1) (world r) = Inl e" and e: "except_clauses e = Retry"
    and l: "with_retry_loop (int n) func INITIAL_BACKOFF 0 None r =
           with_retry_loop (int n) func INITIAL_BACKOFF (0 + n) (Some e)
             (r\<lparr>world := after func n (world r), attempts := attempts r + n,
                sleeps := sleeps r @ backoff_terms INITIAL_BACKOFF 0 n\<rparr>)"
    using with_retry_loop_retries[OF assms(1) _ assms(2), of 0 "int n" INITIAL_BACKOFF None]
    by auto
  show ?thesis
    using o e l by (simp add: with_retry_def with_retry_loop_exhausted)
qed

lemma with_retry_first_success:
  assumes "0 < max_retries" and "func (world r) = (Inr v, s)"
  shows "with_retry max_retries func r = (Inr v, r\<lparr>world := s, attempts := Suc (attempts r)\<rparr>)"
  unfolding with_retry_def using assms by (intro with_retry_loop_success) simp_all

lemma with_retry_first_propagate:
  assumes "0 < max_retries" and "func (world r) = (Inl e, s)"
    and "except_clauses e = Propagate"
  shows "with_retry max_retries func r = (Inl e, r\<lparr>world := s, attempts := Suc (attempts r)\<rparr>)"
  unfolding with_retry_def using assms by (intro with_retry_loop_propagate) simp_all

text \<open>
  C1. With the default policy and an operation that raises \<^verbatim>\<open>RateLimitError\<close> at every
  call, the wrapper awaits the operation three times and raises the last error, and it
  calls \<^verbatim>\<open>asyncio.sleep\<close> after each of the three failures, the last one included:
  the waits are 1, 2 and 4 seconds, 7 in all, where the first two backoff terms sum to 3.
\<close>

theorem with_retry_sleeps_after_last_attempt:
  "with_retry MAX_RETRIES (always_fails (RateLimitError 429)) (start 0) =
     (Inl (RateLimitError 429), \<lparr>world = 3, attempts = 3, sleeps = [1, 2, 4]\<rparr>)
   \<and> sum_list [1, 2, 4 :: real] = 7
   \<and> sum_list (backoff_terms INITIAL_BACKOFF 0 (3 - 1)) = 3"
  using with_retry_all_transient [of 3 "always_fails (RateLimitError 429)" "start 0"]
  by (simp add: MAX_RETRIES_def always_fails_def start_def outcome_def backoff_terms_def
      INITIAL_BACKOFF_def BACKOFF_MULTIPLIER_def numeral_3_eq_3 numeral_2_eq_2 less_Suc_eq)

text \<open>
  C4. A wrapped operation that fails with an \<^verbatim>\<open>APIStatusError\<close> whose status is in
  400..499 is awaited once: the wrapper re-raises that error at once, and
  \<^verbatim>\<open>asyncio.sleep\<close> is not called.
\<close>

theorem with_retry_permanent_failure:
  assumes "0 < max_retries"
    and "func (world r) = (Inl (APIStatusError c), s)"
    and "400 \<le> c" and "c < 500"
  shows "with_retry max_retries func r =
           (Inl (APIStatusError c), r\<lparr>world := s, attempts := Suc (attempts r)\<rparr>)
         \<and> attempts (snd (with_retry max_retries func r)) = attempts r + 1
         \<and> sleeps (snd (with_retry max_retries func r)) = sleeps r"
proof -
  have "except_clauses (APIStatusError c) = Propagate"
    using assms(3,4) by simp
  then have "with_retry max_retries func r =
      (Inl (APIStatusError c), r\<lparr>world := s, attempts := Suc (attempts r)\<rparr>)"
    unfolding with_retry_def using assms(1,2)
    by (intro with_retry_loop_propagate) simp_all
  then show ?thesis by simp
qed

theorem with_retry_permanent_failure_witness:
  "with_retry MAX_RETRIES (always_fails (APIStatusError 404)) (start 0) =
     (Inl (APIStatusError 404), \<lparr>world = 1, attempts = 1, sleeps = []\<rparr>)"
  using with_retry_permanent_failure
    [of MAX_RETRIES "always_fails (APIStatusError 404)" "start 0" 404 1]
  by (simp add: MAX_RETRIES_def always_fails_def start_def)

text \<open>
  C5. \<^verbatim>\<open>RateLimitError\<close>, the error of a 429 response, is caught by the first
  \<^verbatim>\<open>except\<close> clause, before the clause that re-raises the statuses 400..499: the
  wrapper sleeps \<open>INITIAL_BACKOFF\<close> and awaits the operation again, so a success at
  the second call is returned.
\<close>

theorem with_retry_rate_limit_retried:
  assumes "2 \<le> max_retries"
    and "func (world r) = (Inl (RateLimitError c), s)"
    and "func s = (Inr v, s')"
  shows "with_retry max_retries func r =
           (Inr v, r\<lparr>world := s', attempts := attempts r + 2,
              sleeps := sleeps r @ [INITIAL_BACKOFF]\<rparr>)"
proof -
  have "with_retry max_retries func r =
      with_retry_loop max_retries func INITIAL_BACKOFF (Suc 0) (Some (RateLimitError c))
        (r\<lparr>world := s, attempts := Suc (attempts r),
           sleeps := sleeps r @ [INITIAL_BACKOFF * BACKOFF_MULTIPLIER ^ 0]\<rparr>)"
    unfolding with_retry_def using assms(1,2)
    by (intro with_retry_loop_retry) simp_all
  also have "\<dots> = (Inr v, r\<lparr>world := s', attempts := attempts r + 2,
              sleeps := sleeps r @ [INITIAL_BACKOFF]\<rparr>)"
    using assms(1,3) by (subst with_retry_loop_success[where v = v and s = s']) simp_all
  finally show ?thesis .
qed

theorem with_retry_rate_limit_retried_witness:
  "with_retry MAX_RETRIES (succeeds_at 2 (RateLimitError 429) ''done'') (start 0) =
     (Inr ''done'', \<lparr>world = 2, attempts = 2, sleeps = [1]\<rparr>)"
  using with_retry_rate_limit_retried
    [of MAX_RETRIES "succeeds_at 2 (RateLimitError 429) ''done''" "start 0" 429 1 "''done''" 2]
  by (simp add: MAX_RETRIES_def succeeds_at_def start_def INITIAL_BACKOFF_def)

text \<open>
  C6. When the first \<open>k - 1\<close> calls of the wrapped operation fail with an exception
  that the wrapper retries and call \<open>k\<close> returns \<open>v\<close>, with \<open>k\<close> at most
  \<open>max_retries\<close>, the wrapper awaits the operation \<open>k\<close> times and returns \<open>v\<close>
  itself; it has slept \<open>k - 1\<close> times, once after each failure.
\<close>

theorem with_retry_success_at_k:
  assumes "0 < k" and "int k \<le> max_retries"
    and "\<forall>i<k - 1. transient (outcome func i (world r))"
    and "outcome func (k - 1) (world r) = Inr v"
  shows "with_retry max_retries func r =
           (Inr v, r\<lparr>world := after func k (world r), attempts := attempts r + k,
              sleeps := sleeps r @ backoff_terms INITIAL_BACKOFF 0 (k - 1)\<rparr>)"
proof (cases "k = 1")
  case True
  obtain s where "func (world r) = (Inr v, s)"
    using assms(4) True by (cases "func (world r)") (simp add: outcome_0)
  then show ?thesis
    using True assms(2)
    by (simp add: with_retry_def with_retry_loop_success backoff_terms_def)
next
  case False
  with assms(1) have j: "0 < k - 1" by simp
  let ?r1 = "r\<lparr>world := after func (k - 1) (world r), attempts := attempts r + (k - 1),
                sleeps := sleeps r @ backoff_terms INITIAL_BACKOFF 0 (k - 1)\<rparr>"
  have b: "int (0 + (k - 1)) \<le> max_retries"
    using assms(1,2) by linarith
  obtain e where
    l: "with_retry_loop max_retries func INITIAL_BACKOFF 0 None r =
        with_retry_loop max_retries func INITIAL_BACKOFF (0 + (k - 1)) (Some e) ?r1"
    using with_retry_loop_retries[OF assms(3) b j, of INITIAL_BACKOFF None]
    by blast
  obtain s where s: "func (world ?r1) = (Inr v, s)"
    using assms(4) by (cases "func (world ?r1)") (simp add: outcome_def)
  have k: "Suc (k - 1) = k" using assms(1) by simp
  have "after func k (world r) = s"
    using s after_add[of func "k - 1" 1 "world r"] k by simp
  moreover have "with_retry_loop max_retries func INITIAL_BACKOFF (k - 1) (Some e) ?r1 =
      (Inr v, ?r1\<lparr>world := s, attempts := Suc (attempts ?r1)\<rparr>)"
    using assms(1,2) s by (intro with_retry_loop_success) simp_all
  ultimately show ?thesis
    using l k by (simp add: with_retry_def)
qed

theorem with_retry_success_at_k_witness:
  "with_retry MAX_RETRIES (succeeds_at 3 APITimeoutError ''done'') (start 0) =
     (Inr ''done'', \<lparr>world = 3, attempts = 3, sleeps = [1, 2]\<rparr>)"
  using with_retry_success_at_k
    [of 3 MAX_RETRIES "succeeds_at 3 APITimeoutError ''done''" "start 0" "''done''"]
  by (simp add: MAX_RETRIES_def succeeds_at_def start_def outcome_def backoff_terms_def
      INITIAL_BACKOFF_def BACKOFF_MULTIPLIER_def numeral_3_eq_3 numeral_2_eq_2 less_Suc_eq)

section \<open>Properties of the AI operations\<close>

lemma chat_kwargs_of_resolved:
  assumes "model = Some m \<and> m \<noteq> [] \<and> deployment = m
           \<or> (model = None \<or> model = Some []) \<and> deployment = get_chat_deployment config"
    and "response_format = Some d \<and> d \<noteq> [] \<and> format = Some d
           \<or> (response_format = None \<or> response_format = Some []) \<and> format = None"
  shows "chat_kwargs_of config messages model temperature max_tokens response_format =
      \<lparr>kw_model = deployment, kw_messages = messages, kw_temperature = Some temperature,
       kw_max_tokens = max_tokens, kw_response_format = format\<rparr>"
  using assms by (auto simp: chat_kwargs_of_def)

lemma chat_completion_answered:
  assumes "chat_completions_create client
             (chat_kwargs_of config messages model temperature max_tokens response_format)
             (world r) = (Inr response, s')"
    and "choices response = c # cs"
  shows "chat_completion client config messages model temperature max_tokens response_format r =
           (Inr (case message_content c of None \<Rightarrow> [] | Some text \<Rightarrow> text),
            r\<lparr>world := s', attempts := Suc (attempts r)\<rparr>)"
proof -
  have "chat_completion_body client config messages model temperature max_tokens
          response_format (world r) =
      (Inr (case message_content c of None \<Rightarrow> [] | Some text \<Rightarrow> text), s')"
    using assms by (simp add: chat_completion_body_def)
  then show ?thesis
    unfolding chat_completion_def
    by (intro with_retry_first_success) (simp_all add: MAX_RETRIES_def)
qed

lemma chat_completion_json_answered:
  assumes "chat_completions_create client
             (chat_kwargs_of config messages model temperature max_tokens
                (Some [(''type'', ''json_object'')])) s = (Inr response, s')"
    and "choices response = c # cs"
    and "text = (case message_content c of None \<Rightarrow> [] | Some t \<Rightarrow> t)"
  shows "chat_completion_json json_loads client config messages model temperature max_tokens
           (start (start s)) =
           (case json_loads text of
              Inr v \<Rightarrow> Inr v
            | Inl e \<Rightarrow> Inl (ValueError (''Invalid JSON response from model: '' @ e)),
            \<lparr>world = \<lparr>world = s', attempts = 1, sleeps = []\<rparr>, attempts = 1, sleeps = []\<rparr>)"
proof -
  let ?body = "chat_completion_json_body json_loads client config messages model temperature
      max_tokens"
  let ?r' = "\<lparr>world = s', attempts = 1, sleeps = []\<rparr>"
  have inner: "chat_completion client config messages model temperature max_tokens
      (Some [(''type'', ''json_object'')]) (start s) = (Inr text, ?r')"
    using chat_completion_answered[of client config messages model temperature max_tokens
        "Some [(''type'', ''json_object'')]" "start s" response s' c cs] assms
    by (simp add: start_def)
  show ?thesis
  proof (cases "json_loads text")
    case (Inr v)
    then have "?body (world (start (start s))) = (Inr v, ?r')"
      using inner by (simp add: chat_completion_json_body_def start_def)
    then have "with_retry MAX_RETRIES ?body (start (start s)) =
        (Inr v, (start (start s))\<lparr>world := ?r', attempts := Suc (attempts (start (start s)))\<rparr>)"
      by (intro with_retry_first_success) (simp_all add: MAX_RETRIES_def)
    then show ?thesis using Inr by (simp add: chat_completion_json_def start_def)
  next
    case (Inl e)
    then have "?body (world (start (start s))) =
        (Inl (ValueError (''Invalid JSON response from model: '' @ e)), ?r')"
      using inner by (simp add: chat_completion_json_body_def start_def)
    then have "with_retry MAX_RETRIES ?body (start (start s)) =
        (Inl (ValueError (''Invalid JSON response from model: '' @ e)),
         (start (start s))\<lparr>world := ?r', attempts := Suc (attempts (start (start s)))\<rparr>)"
      by (intro with_retry_first_propagate) (simp_all add: MAX_RETRIES_def)
    then show ?thesis using Inl by (simp add: chat_completion_json_def start_def)
  qed
qed

lemma chat_completion_body_transient:
  assumes "\<forall>kwargs s. transient (fst (chat_completions_create client kwargs s))"
  shows "\<exists>e s'. except_clauses e = Retry \<and>
           chat_completions_create client
             (chat_kwargs_of config messages model temperature max_tokens response_format) s =
             (Inl e, s')
           \<and> chat_completion_body client config messages model temperature
             max_tokens response_format s = (Inl e, s')"
proof -
  let ?kw = "chat_kwargs_of config messages model temperature max_tokens response_format"
  have "transient (fst (chat_completions_create client ?kw s))" using assms by blast
  then show ?thesis
    by (cases "chat_completions_create client ?kw s";
        cases "fst (chat_completions_create client ?kw s)")
      (auto simp: chat_completion_body_def)
qed

lemma chat_completion_all_transient:
  assumes "\<forall>kwargs s. transient (fst (chat_completions_create client kwargs s))"
  shows "\<exists>e. except_clauses e = Retry \<and>
           outcome (chat_completions_create client
             (chat_kwargs_of config messages model temperature max_tokens response_format))
             2 (world r) = Inl e \<and>
           chat_completion client config messages model temperature max_tokens response_format r =
             (Inl e,
              r\<lparr>world := after (chat_completions_create client
                    (chat_kwargs_of config messages model temperature max_tokens
                       response_format)) 3 (world r),
                attempts := attempts r + 3,
                sleeps := sleeps r @ backoff_terms INITIAL_BACKOFF 0 3\<rparr>)"
proof -
  let ?g = "chat_completions_create client
      (chat_kwargs_of config messages model temperature max_tokens response_format)"
  let ?f = "chat_completion_body client config messages model temperature max_tokens
      response_format"
  note body = chat_completion_body_transient[OF assms, of config messages model temperature
      max_tokens response_format]
  have snd_eq: "snd (?f s) = snd (?g s)" for s
    using body[of s] by auto
  have fst_eq: "fst (?f s) = Inl e \<Longrightarrow> fst (?g s) = Inl e" for s e
    using body[of s] by auto
  have tr: "transient (fst (?f s))" for s
    using body[of s] by auto
  have aft: "after ?f n s = after ?g n s" for n s
    using snd_eq by (intro after_cong) simp
  have "\<forall>i<3. transient (outcome ?f i (world r))"
    using tr by (simp add: outcome_def)
  then obtain e where e: "except_clauses e = Retry"
    and o: "outcome ?f (3 - 1) (world r) = Inl e"
    and w: "with_retry (int 3) ?f r =
      (Inl e, r\<lparr>world := after ?f 3 (world r), attempts := attempts r + 3,
         sleeps := sleeps r @ backoff_terms INITIAL_BACKOFF 0 3\<rparr>)"
    using with_retry_all_transient[of 3 ?f r] by auto
  have "outcome ?g 2 (world r) = Inl e"
    using o fst_eq[of "after ?g 2 (world r)" e] by (simp add: outcome_def aft)
  then show ?thesis
    using e w by (auto simp: chat_completion_def MAX_RETRIES_def aft)
qed



text \<open>
  C8. \<^verbatim>\<open>chat_completion\<close> sends the request to the deployment given as \<^verbatim>\<open>model\<close> when
  that is a non-empty string, and to the main chat deployment of the configuration when
  it is \<^verbatim>\<open>None\<close> (or the empty string, which Python's \<^verbatim>\<open>or\<close> treats alike). When the
  provider answers that request, the result is the content of the first choice, and
  the empty string when that content is \<^verbatim>\<open>None\<close>.
\<close>

theorem chat_completion_first_choice:
  assumes "model = Some m \<and> m \<noteq> [] \<and> deployment = m
           \<or> (model = None \<or> model = Some []) \<and> deployment = get_chat_deployment config"
    and "response_format = Some d \<and> d \<noteq> [] \<and> format = Some d
           \<or> (response_format = None \<or> response_format = Some []) \<and> format = None"
    and "chat_completions_create client
           \<lparr>kw_model = deployment, kw_messages = messages, kw_temperature = Some temperature,
            kw_max_tokens = max_tokens, kw_response_format = format\<rparr> s = (Inr response, s')"
    and "choices response = c # cs"
  shows "chat_completion client config messages model temperature max_tokens response_format
           (start s) =
           (Inr (case message_content c of None \<Rightarrow> [] | Some text \<Rightarrow> text),
            \<lparr>world = s', attempts = 1, sleeps = []\<rparr>)"
proof -
  have kw: "chat_kwargs_of config messages model temperature max_tokens response_format =
      \<lparr>kw_model = deployment, kw_messages = messages, kw_temperature = Some temperature,
       kw_max_tokens = max_tokens, kw_response_format = format\<rparr>"
    using assms(1,2) by (auto simp: chat_kwargs_of_def)
  have "chat_completion_body client config messages model temperature max_tokens
          response_format s =
      (Inr (case message_content c of None \<Rightarrow> [] | Some text \<Rightarrow> text), s')"
    using assms(3,4) by (simp add: chat_completion_body_def kw)
  then have "with_retry MAX_RETRIES
      (chat_completion_body client config messages model temperature max_tokens response_format)
      (start s) =
      (Inr (case message_content c of None \<Rightarrow> [] | Some text \<Rightarrow> text),
       (start s)\<lparr>world := s', attempts := Suc (attempts (start s))\<rparr>)"
    by (intro with_retry_first_success) (simp_all add: MAX_RETRIES_def start_def)
  then show ?thesis
    by (simp add: chat_completion_def start_def)
qed

theorem chat_completion_first_choice_witness:
  "chat_completion (stub_provider (\<lambda>kwargs. Some (kw_model kwargs)) (\<lambda>t. [1])) example_config
       [[(''role'', ''user''), (''content'', ''Hi'')]] (Some ''my-deployment'') 0.7 1000 None
       (start 0) =
     (Inr ''my-deployment'', \<lparr>world = 1, attempts = 1, sleeps = []\<rparr>)
   \<and> chat_completion (stub_provider (\<lambda>kwargs. Some (kw_model kwargs)) (\<lambda>t. [1])) example_config
       [[(''role'', ''user''), (''content'', ''Hi'')]] None 0.7 1000 None (start 0) =
     (Inr ''gpt-4.1'', \<lparr>world = 1, attempts = 1, sleeps = []\<rparr>)
   \<and> chat_completion (stub_provider (\<lambda>kwargs. None) (\<lambda>t. [1])) example_config
       [[(''role'', ''user''), (''content'', ''Hi'')]] None 0.7 1000 None (start 0) =
     (Inr [], \<lparr>world = 1, attempts = 1, sleeps = []\<rparr>)"
  using chat_completion_first_choice
    [of "Some ''my-deployment''" "''my-deployment''" "''my-deployment''" example_config
      None "[]" None
      "stub_provider (\<lambda>kwargs. Some (kw_model kwargs)) (\<lambda>t. [1])"
      "[[(''role'', ''user''), (''content'', ''Hi'')]]" "0.7" 1000 0
      "\<lparr>choices = [\<lparr>message_content = Some ''my-deployment''\<rparr>]\<rparr>" 1
      "\<lparr>message_content = Some ''my-deployment''\<rparr>" "[]"]
    chat_completion_first_choice
    [of None "[]" "''gpt-4.1''" example_config
      None "[]" None
      "stub_provider (\<lambda>kwargs. Some (kw_model kwargs)) (\<lambda>t. [1])"
      "[[(''role'', ''user''), (''content'', ''Hi'')]]" "0.7" 1000 0
      "\<lparr>choices = [\<lparr>message_content = Some ''gpt-4.1''\<rparr>]\<rparr>" 1
      "\<lparr>message_content = Some ''gpt-4.1''\<rparr>" "[]"]
    chat_completion_first_choice
    [of None "[]" "''gpt-4.1''" example_config
      None "[]" None
      "stub_provider (\<lambda>kwargs. None) (\<lambda>t. [1])"
      "[[(''role'', ''user''), (''content'', ''Hi'')]]" "0.7" 1000 0
      "\<lparr>choices = [\<lparr>message_content = None\<rparr>]\<rparr>" 1
      "\<lparr>message_content = None\<rparr>" "[]"]
  by (simp add: stub_provider_def example_config_def get_chat_deployment_def)

text \<open>
  C3. When the provider answers the JSON-mode request, \<^verbatim>\<open>chat_completion_json\<close> hands
  the content of the first choice to \<^verbatim>\<open>json.loads\<close>. A value that \<^verbatim>\<open>json.loads\<close>
  returns is returned as it is. When \<^verbatim>\<open>json.loads\<close> raises, the function raises
  \<open>ValueError\<close> with the text \<^verbatim>\<open>Invalid JSON response from model: \<close> followed by the
  text of the decoder's error, and returns no value; the error is not retried.
\<close>

theorem chat_completion_json_parse:
  assumes "model = Some m \<and> m \<noteq> [] \<and> deployment = m
           \<or> (model = None \<or> model = Some []) \<and> deployment = get_chat_deployment config"
    and "chat_completions_create client
           \<lparr>kw_model = deployment, kw_messages = messages, kw_temperature = Some temperature,
            kw_max_tokens = max_tokens,
            kw_response_format = Some [(''type'', ''json_object'')]\<rparr> s = (Inr response, s')"
    and "choices response = c # cs"
    and "text = (case message_content c of None \<Rightarrow> [] | Some t \<Rightarrow> t)"
  shows "chat_completion_json json_loads client config messages model temperature max_tokens
           (start (start s)) =
           (case json_loads text of
              Inr v \<Rightarrow> Inr v
            | Inl e \<Rightarrow> Inl (ValueError (''Invalid JSON response from model: '' @ e)),
            \<lparr>world = \<lparr>world = s', attempts = 1, sleeps = []\<rparr>, attempts = 1, sleeps = []\<rparr>)"
proof -
  have "chat_kwargs_of config messages model temperature max_tokens
      (Some [(''type'', ''json_object'')]) =
      \<lparr>kw_model = deployment, kw_messages = messages, kw_temperature = Some temperature,
       kw_max_tokens = max_tokens, kw_response_format = Some [(''type'', ''json_object'')]\<rparr>"
    using assms(1)
    by (intro chat_kwargs_of_resolved[where d = "[(''type'', ''json_object'')]"]) simp_all
  then show ?thesis
    using assms(2-4) by (intro chat_completion_json_answered) simp_all
qed

theorem chat_completion_json_parse_witness:
  \<open>chat_completion_json stub_json_loads
       (stub_provider (\<lambda>kwargs. Some ''{"topics": ["x"]}'') (\<lambda>t. [1])) example_config
       [[(''role'', ''user''), (''content'', ''List the topics'')]] None 0.3 2000
       (start (start 0)) =
     (Inr (JObject [(''topics'', JArray [JString ''x''])]),
      \<lparr>world = \<lparr>world = 1, attempts = 1, sleeps = []\<rparr>, attempts = 1, sleeps = []\<rparr>)
   \<and> chat_completion_json stub_json_loads
       (stub_provider (\<lambda>kwargs. Some ''{bad json'') (\<lambda>t. [1])) example_config
       [[(''role'', ''user''), (''content'', ''List the topics'')]] None 0.3 2000
       (start (start 0)) =
     (Inl (ValueError (''Invalid JSON response from model: '' @
        ''Expecting property name enclosed in double quotes: line 1 column 2 (char 1)'')),
      \<lparr>world = \<lparr>world = 1, attempts = 1, sleeps = []\<rparr>, attempts = 1, sleeps = []\<rparr>)\<close>
  using chat_completion_json_parse
    [of None "[]" "''gpt-4.1''" example_config
      \<open>stub_provider (\<lambda>kwargs. Some ''{"topics": ["x"]}'') (\<lambda>t. [1])\<close>
      "[[(''role'', ''user''), (''content'', ''List the topics'')]]" "0.3" 2000 0
      \<open>\<lparr>choices = [\<lparr>message_content = Some ''{"topics": ["x"]}''\<rparr>]\<rparr>\<close> 1
      \<open>\<lparr>message_content = Some ''{"topics": ["x"]}''\<rparr>\<close> "[]"
      \<open>''{"topics": ["x"]}''\<close> stub_json_loads]
    chat_completion_json_parse
    [of None "[]" "''gpt-4.1''" example_config
      \<open>stub_provider (\<lambda>kwargs. Some ''{bad json'') (\<lambda>t. [1])\<close>
      "[[(''role'', ''user''), (''content'', ''List the topics'')]]" "0.3" 2000 0
      \<open>\<lparr>choices = [\<lparr>message_content = Some ''{bad json''\<rparr>]\<rparr>\<close> 1
      \<open>\<lparr>message_content = Some ''{bad json''\<rparr>\<close> "[]"
      \<open>''{bad json''\<close> stub_json_loads]
  by (simp add: stub_provider_def example_config_def get_chat_deployment_def stub_json_loads_def)

text \<open>
  For the content \<^verbatim>\<open>{bad json\<close> the error raised holds the decoder's message and
  position; the content itself does not occur in it.
\<close>

theorem chat_completion_json_raw_text_counterexample:
  \<open>chat_completion_json stub_json_loads
       (stub_provider (\<lambda>kwargs. Some ''{bad json'') (\<lambda>t. [1])) example_config
       [[(''role'', ''user''), (''content'', ''List the topics'')]] None 0.3 2000
       (start (start 0)) =
     (Inl (ValueError ''Invalid JSON response from model: Expecting property name enclosed in double quotes: line 1 column 2 (char 1)''),
      \<lparr>world = \<lparr>world = 1, attempts = 1, sleeps = []\<rparr>, attempts = 1, sleeps = []\<rparr>)
   \<and> \<not> sublist ''{bad json'' ''Invalid JSON response from model: Expecting property name enclosed in double quotes: line 1 column 2 (char 1)''\<close>
proof -
  have "\<not> sublist ''{bad json'' ''Invalid JSON response from model: Expecting property name enclosed in double quotes: line 1 column 2 (char 1)''"
    by code_simp
  moreover have \<open>chat_completion_json stub_json_loads
       (stub_provider (\<lambda>kwargs. Some ''{bad json'') (\<lambda>t. [1])) example_config
       [[(''role'', ''user''), (''content'', ''List the topics'')]] None 0.3 2000
       (start (start 0)) =
     (case stub_json_loads ''{bad json'' of
              Inr v \<Rightarrow> Inr v
            | Inl e \<Rightarrow> Inl (ValueError (''Invalid JSON response from model: '' @ e)),
      \<lparr>world = \<lparr>world = 1, attempts = 1, sleeps = []\<rparr>, attempts = 1, sleeps = []\<rparr>)\<close>
    using chat_completion_json_answered
      [of "stub_provider (\<lambda>kwargs. Some ''{bad json'') (\<lambda>t. [1])" example_config
        "[[(''role'', ''user''), (''content'', ''List the topics'')]]" None "0.3" 2000 0
        "\<lparr>choices = [\<lparr>message_content = Some ''{bad json''\<rparr>]\<rparr>" 1
        "\<lparr>message_content = Some ''{bad json''\<rparr>" "[]" "''{bad json''" stub_json_loads]
    by (simp add: stub_provider_def)
  ultimately show ?thesis
    by (simp add: stub_json_loads_def)
qed

text \<open>
  C10. \<^verbatim>\<open>chat_completion_json\<close> is decorated and awaits \<^verbatim>\<open>chat_completion\<close>, which is
  decorated too. Against a provider whose every chat call fails with an exception that
  the wrapper retries, each of the three outer attempts runs the inner loop through its
  three attempts: the provider is called nine times, the error of the ninth call is
  raised, the inner loops have slept nine times and the outer loop three times.
\<close>

theorem chat_completion_json_nested_retries:
  assumes "\<forall>kwargs s. transient (fst (chat_completions_create client kwargs s))"
  shows "\<exists>e. except_clauses e = Retry \<and>
           outcome (chat_completions_create client
             (chat_kwargs_of config messages model temperature max_tokens
                (Some [(''type'', ''json_object'')]))) 8 s = Inl e \<and>
           chat_completion_json json_loads client config messages model temperature max_tokens
             (start (start s)) =
             (Inl e,
              \<lparr>world =
                 \<lparr>world = after (chat_completions_create client
                      (chat_kwargs_of config messages model temperature max_tokens
                         (Some [(''type'', ''json_object'')]))) 9 s,
                  attempts = 9,
                  sleeps = backoff_terms INITIAL_BACKOFF 0 3 @ backoff_terms INITIAL_BACKOFF 0 3
                    @ backoff_terms INITIAL_BACKOFF 0 3\<rparr>,
               attempts = 3,
               sleeps = backoff_terms INITIAL_BACKOFF 0 3\<rparr>)"
proof -
  let ?g = "chat_completions_create client
      (chat_kwargs_of config messages model temperature max_tokens
         (Some [(''type'', ''json_object'')]))"
  let ?h = "chat_completion_json_body json_loads client config messages model temperature
      max_tokens"
  let ?bt = "backoff_terms INITIAL_BACKOFF 0 3"
  have body: "\<exists>e. except_clauses e = Retry \<and> outcome ?g 2 (world r) = Inl e \<and>
      ?h r = (Inl e, r\<lparr>world := after ?g 3 (world r), attempts := attempts r + 3,
                      sleeps := sleeps r @ ?bt\<rparr>)" for r
    using chat_completion_all_transient[OF assms, of config messages model temperature
        max_tokens "Some [(''type'', ''json_object'')]" r]
    by (auto simp: chat_completion_json_body_def)
  have snd_h: "snd (?h r) = r\<lparr>world := after ?g 3 (world r), attempts := attempts r + 3,
                      sleeps := sleeps r @ ?bt\<rparr>" for r
    using body[of r] by auto
  have fst_h: "fst (?h r) = Inl e \<Longrightarrow> outcome ?g 2 (world r) = Inl e" for r e
    using body[of r] by auto
  have tr: "transient (fst (?h r))" for r
    using body[of r] by auto
  have "\<forall>i<3. transient (outcome ?h i (world (start (start s))))"
    using tr by (simp add: outcome_def)
  then obtain e where e: "except_clauses e = Retry"
    and o: "outcome ?h (3 - 1) (world (start (start s))) = Inl e"
    and w: "with_retry (int 3) ?h (start (start s)) =
      (Inl e, (start (start s))\<lparr>world := after ?h 3 (world (start (start s))),
         attempts := attempts (start (start s)) + 3,
         sleeps := sleeps (start (start s)) @ ?bt\<rparr>)"
    using with_retry_all_transient[of 3 ?h "start (start s)"] by auto
  have nine: "after ?g 3 (after ?g 3 (after ?g 3 s)) = after ?g 9 s"
    using after_add[of ?g 6 3 s] after_add[of ?g 3 3 s] by simp
  have eight: "after ?g 2 (after ?g 3 (after ?g 3 s)) = after ?g 8 s"
    using after_add[of ?g 6 2 s] after_add[of ?g 3 3 s] by simp
  have "after ?h 3 (start s) = snd (?h (snd (?h (snd (?h (start s))))))"
    by (simp add: numeral_3_eq_3)
  also have "\<dots> = \<lparr>world = after ?g 9 s, attempts = 9, sleeps = ?bt @ ?bt @ ?bt\<rparr>"
    using nine by (simp add: snd_h start_def)
  finally have three: "after ?h 3 (start s) =
      \<lparr>world = after ?g 9 s, attempts = 9, sleeps = ?bt @ ?bt @ ?bt\<rparr>" .
  have "after ?h 2 (start s) = snd (?h (snd (?h (start s))))"
    by (simp add: numeral_2_eq_2)
  then have "world (after ?h 2 (start s)) = after ?g 3 (after ?g 3 s)"
    by (simp add: snd_h start_def)
  moreover have "fst (?h (after ?h 2 (start s))) = Inl e"
    using o by (simp add: outcome_def start_def)
  ultimately have "outcome ?g 8 s = Inl e"
    using fst_h[of "after ?h 2 (start s)" e] eight by (simp add: outcome_def)
  then show ?thesis
    using e w three by (auto simp: chat_completion_json_def MAX_RETRIES_def start_def)
qed

theorem chat_completion_json_nested_retries_witness:
  "chat_completion_json stub_json_loads (failing_provider APIConnectionError) example_config
       [[(''role'', ''user''), (''content'', ''List the topics'')]] None 0.3 2000
       (start (start 0)) =
     (Inl APIConnectionError,
      \<lparr>world = \<lparr>world = 9, attempts = 9, sleeps = [1, 2, 4, 1, 2, 4, 1, 2, 4]\<rparr>,
       attempts = 3, sleeps = [1, 2, 4]\<rparr>)"
  using chat_completion_json_nested_retries
    [of "failing_provider APIConnectionError" example_config
      "[[(''role'', ''user''), (''content'', ''List the topics'')]]" None "0.3" 2000 0
      stub_json_loads]
  by (auto simp: failing_provider_def backoff_terms_def INITIAL_BACKOFF_def
      BACKOFF_MULTIPLIER_def outcome_def eval_nat_numeral)

section \<open>Properties of the health probe\<close>

text \<open>
  C2. The probe reports on the first choice of the chat response and on the first item
  of the embedding response: the chat check passes when the content is not \<^verbatim>\<open>None\<close>
  (the empty string passes), the embedding check when the vector is not empty; the
  status is \<^verbatim>\<open>healthy\<close> when both pass and \<^verbatim>\<open>degraded\<close> otherwise.
\<close>

theorem validate_azure_connection_status:
  assumes "chat_completions_create client
             \<lparr>kw_model = deployment_chat_mini config,
              kw_messages = [[(''role'', ''user''), (''content'', ''Hello'')]],
              kw_temperature = None, kw_max_tokens = 5, kw_response_format = None\<rparr> s =
           (Inr response, s1)"
    and "choices response = c # cs"
    and "embeddings_create client
           \<lparr>emb_model = deployment_embedding config, emb_input = Single ''test''\<rparr> s1 =
         (Inr embed_response, s2)"
    and "data embed_response = item # items"
  shows "validate_azure_connection client config s =
           (Inr [(''status'',
                   if message_content c \<noteq> None \<and> embedding item \<noteq> []
                   then ''healthy'' else ''degraded''),
                 (''chat_completion'', if message_content c \<noteq> None then ''ok'' else ''failed''),
                 (''embeddings'', if embedding item \<noteq> [] then ''ok'' else ''failed''),
                 (''endpoint'', endpoint config)], s2)"
  using assms by (simp add: validate_azure_connection_def)

theorem validate_azure_connection_status_witness:
  "validate_azure_connection (stub_provider (\<lambda>kwargs. None) (\<lambda>t. [1])) example_config 0 =
     (Inr [(''status'', ''degraded''), (''chat_completion'', ''failed''), (''embeddings'', ''ok''),
           (''endpoint'', ''https://example.openai.azure.com'')], 2)"
  using validate_azure_connection_status
    [of "stub_provider (\<lambda>kwargs. None) (\<lambda>t. [1])" example_config 0
      "\<lparr>choices = [\<lparr>message_content = None\<rparr>]\<rparr>" 1 "\<lparr>message_content = None\<rparr>" "[]"
      "\<lparr>data = [\<lparr>embedding = [1]\<rparr>]\<rparr>" 2 "\<lparr>embedding = [1]\<rparr>" "[]"]
  by (simp add: stub_provider_def example_config_def)

text \<open>
  A provider that answers the chat call with the empty string as content, and the
  embedding call with a non-empty vector, is reported healthy.
\<close>

theorem validate_azure_connection_empty_text_counterexample:
  "validate_azure_connection (stub_provider (\<lambda>kwargs. Some []) (\<lambda>t. [1])) example_config 0 =
     (Inr [(''status'', ''healthy''), (''chat_completion'', ''ok''), (''embeddings'', ''ok''),
           (''endpoint'', ''https://example.openai.azure.com'')], 2)"
  by (simp add: validate_azure_connection_def stub_provider_def example_config_def)

section \<open>Properties of the configuration\<close>



end
